theory Spec2Isabelle
  imports Complex_Main "HOL-Library.Word"
begin

section \<open>EagleAI backend: student records and the resume file lifecycle\<close>

text \<open>
  A shallow embedding of \<^verbatim>\<open>backend_python/main.py\<close>. The MongoDB collection
  \<^verbatim>\<open>students_collection\<close> is a list of documents in natural order, the upload
  directory is a map from path strings to file contents, and every endpoint is a function
  from the state before the request to its outcome and the state after it. An exception is
  a value: \<open>Inl\<close> of the sum the endpoint returns.
\<close>

subsection \<open>Exceptions and the two handler shapes\<close>

text \<open>
  \<open>HTTPException\<close> is FastAPI's exception (a subclass of Python's \<^verbatim>\<open>Exception\<close>);
  \<open>InvalidId\<close> is raised by \<^verbatim>\<open>bson.ObjectId\<close>, \<open>OSError\<close> by the file system,
  \<open>PyMongoError\<close> and \<open>DuplicateKeyError\<close> by the database driver.
\<close>

datatype exn =
    HTTPException (status_code: nat) (detail: string)
  | InvalidId
  | OSError
  | PyMongoError
  | DuplicateKeyError

text \<open>
  The handler of the endpoints that re-raise their own HTTP errors (upload, download,
  analyze, delete, \<^verbatim>\<open>get_student\<close>, \<^verbatim>\<open>create_student\<close>):
  \<^verbatim>\<open>except HTTPException: raise\<close> followed by
  \<^verbatim>\<open>except Exception as e: raise HTTPException(status_code=500, detail=msg)\<close>.
\<close>

fun reraise_http :: "string \<Rightarrow> exn + 'a \<Rightarrow> exn + 'a" where
  "reraise_http msg (Inr v) = Inr v"
| "reraise_http msg (Inl (HTTPException c d)) = Inl (HTTPException c d)"
| "reraise_http msg (Inl e) = Inl (HTTPException 500 msg)"

text \<open>
  The handler of \<^verbatim>\<open>get_student_resume\<close> and \<^verbatim>\<open>get_students\<close>: only
  \<^verbatim>\<open>except Exception as e: raise HTTPException(status_code=500, detail=msg)\<close>, which
  also catches an \<open>HTTPException\<close> raised in the body.
\<close>

fun catch_all :: "string \<Rightarrow> exn + 'a \<Rightarrow> exn + 'a" where
  "catch_all msg (Inr v) = Inr v"
| "catch_all msg (Inl e) = Inl (HTTPException 500 msg)"

subsection \<open>Object identifiers\<close>

text \<open>
  \<^verbatim>\<open>bson.ObjectId(s)\<close> on a string: the string must have 24 characters and
  \<^verbatim>\<open>bytes.fromhex\<close> must accept it, otherwise \<open>InvalidId\<close> is raised. The identifier
  is the byte sequence \<^verbatim>\<open>fromhex\<close> returns; \<^verbatim>\<open>str\<close> of an identifier is its
  lower-case hexadecimal form. Strings are sequences of 8-bit characters here.
\<close>

type_synonym oid = "nat list"

definition hexval :: "char \<Rightarrow> nat option" where
  "hexval c =
     (let n = (of_char c :: nat) in
      if 48 \<le> n \<and> n \<le> 57 then Some (n - 48)
      else if 97 \<le> n \<and> n \<le> 102 then Some (n - 87)
      else if 65 \<le> n \<and> n \<le> 70 then Some (n - 55)
      else None)"

definition isspace :: "char \<Rightarrow> bool" where
  "isspace c = (let n = (of_char c :: nat) in n = 32 \<or> (9 \<le> n \<and> n \<le> 13))"

fun fromhex :: "string \<Rightarrow> nat list option" where
  "fromhex [] = Some []"
| "fromhex [c] = (if isspace c then Some [] else None)"
| "fromhex (c # d # cs) =
     (if isspace c then fromhex (d # cs)
      else case (hexval c, hexval d) of
             (Some a, Some b) \<Rightarrow> map_option ((#) (16 * a + b)) (fromhex cs)
           | _ \<Rightarrow> None)"

definition ObjectId :: "string \<Rightarrow> exn + oid" where
  "ObjectId s =
     (if length s = 24 then (case fromhex s of Some bs \<Rightarrow> Inr bs | None \<Rightarrow> Inl InvalidId)
      else Inl InvalidId)"

definition hexdigit :: "nat \<Rightarrow> char" where
  "hexdigit n = ''0123456789abcdef'' ! (n mod 16)"

definition str_oid :: "oid \<Rightarrow> string" where
  "str_oid bs = concat (map (\<lambda>b. [hexdigit (b div 16), hexdigit b]) bs)"

subsection \<open>Documents\<close>

type_synonym bytes = "8 word list"

datatype json =
    JNull
  | JBool bool
  | JInt int
  | JFloat real
  | JStr string
  | JList "json list"
  | JDict "(string \<times> json) list"

text \<open>The request model \<^verbatim>\<open>StudentCreate\<close>, after validation.\<close>

record StudentCreate =
  name :: string
  email :: string
  university :: "string option"
  major :: "string option"
  graduationYear :: "int option"
  skills :: "string list"
  interests :: "string list"
  careerGoals :: "string list"
  jobPreferences :: "(string \<times> json) list"

text \<open>The embedded document \<^verbatim>\<open>resumeFile\<close>, as \<^verbatim>\<open>upload_student_resume\<close> builds it.\<close>

record resume_data =
  originalName :: string
  fileName :: string
  filePath :: string
  fileSize :: nat
  uploadedAt :: string

text \<open>The embedded document \<^verbatim>\<open>resumeAnalysis\<close>, as \<^verbatim>\<open>analyze_student_resume\<close> builds it.\<close>

record analysis =
  overallScore :: real
  categoryScores :: "(string \<times> int) list"
  strengths :: "string list"
  priorityImprovements :: "string list"
  overallAssessment :: string
  lastAnalyzed :: string

text \<open>
  A document of the collection: the fields of \<^verbatim>\<open>student.dict()\<close>, the three fields
  \<^verbatim>\<open>create_student\<close> adds, the \<^verbatim>\<open>_id\<close> the database assigns, and the three resume
  fields, each of which is a key that may be absent (\<open>None\<close>).
\<close>

record student = StudentCreate +
  doc_id :: oid
  isActive :: bool
  createdAt :: string
  lastLogin :: string
  resumeFile :: "resume_data option"
  resumeText :: "string option"
  resumeAnalysis :: "analysis option"

record state =
  students_collection :: "student list"
  files :: "string \<rightharpoonup> bytes"

subsection \<open>The database driver\<close>

text \<open>
  \<^verbatim>\<open>find_one(query)\<close> returns the first document that matches, \<^verbatim>\<open>update_one\<close>
  changes the first document that matches and \<^verbatim>\<open>insert_one\<close> appends a document
  under a generated \<^verbatim>\<open>_id\<close>, which the unique index on \<^verbatim>\<open>_id\<close> refuses when it
  is already taken.
\<close>

definition find_one :: "(student \<Rightarrow> bool) \<Rightarrow> student list \<Rightarrow> student option" where
  "find_one q coll = List.find q coll"

fun update_one :: "(student \<Rightarrow> bool) \<Rightarrow> (student \<Rightarrow> student) \<Rightarrow> student list \<Rightarrow> student list" where
  "update_one q u [] = []"
| "update_one q u (d # ds) = (if q d then u d # ds else d # update_one q u ds)"

definition insert_one :: "student \<Rightarrow> student list \<Rightarrow> exn + student list" where
  "insert_one d coll =
     (if doc_id d \<in> set (map doc_id coll) then Inl DuplicateKeyError else Inr (coll @ [d]))"

definition by_id :: "oid \<Rightarrow> student \<Rightarrow> bool" where
  "by_id i d = (doc_id d = i)"

subsection \<open>Configuration\<close>

definition UPLOAD_DIR :: string where
  "UPLOAD_DIR = ''uploads/resumes''"

definition MAX_FILE_SIZE :: nat where
  "MAX_FILE_SIZE = 5 * 1024 * 1024"

text \<open>
  \<^verbatim>\<open>str(UPLOAD_DIR / filename)\<close> as \<^verbatim>\<open>pathlib\<close> computes it on a POSIX system,
  for a relative second operand (the stored name begins with \<^verbatim>\<open>resume-\<close>): both
  operands are split at \<^verbatim>\<open>/\<close>, empty components and \<^verbatim>\<open>.\<close> components are dropped
  (\<^verbatim>\<open>..\<close> is kept), and the remaining components are joined by \<^verbatim>\<open>/\<close>; no component
  at all gives \<^verbatim>\<open>.\<close>.
\<close>

fun split_slash :: "string \<Rightarrow> string list" where
  "split_slash [] = [[]]"
| "split_slash (c # cs) =
     (if c = CHR ''/'' then [] # split_slash cs
      else (case split_slash cs of
              [] \<Rightarrow> [[c]]
            | p # ps \<Rightarrow> (c # p) # ps))"

definition path_parts :: "string \<Rightarrow> string list" where
  "path_parts s = filter (\<lambda>p. p \<noteq> [] \<and> p \<noteq> ''.'') (split_slash s)"

fun join_slash :: "string list \<Rightarrow> string" where
  "join_slash [] = ''.''"
| "join_slash [p] = p"
| "join_slash (p # q # ps) = p @ ''/'' @ join_slash (q # ps)"

definition path_join :: "string \<Rightarrow> string \<Rightarrow> string" where
  "path_join dir fname = join_slash (path_parts dir @ path_parts fname)"

text \<open>
  The stored name of an upload:
  \<^verbatim>\<open>f"resume-{student_id}-{timestamp}-{resume.filename}"\<close>.
\<close>

definition stored_name :: "string \<Rightarrow> string \<Rightarrow> string \<Rightarrow> string" where
  "stored_name student_id timestamp fname =
     ''resume-'' @ student_id @ ''-'' @ timestamp @ ''-'' @ fname"

text \<open>The download link of the responses: \<^verbatim>\<open>f"/api/students/{student_id}/resume/download"\<close>.\<close>

definition download_url :: "string \<Rightarrow> string" where
  "download_url student_id = ''/api/students/'' @ student_id @ ''/resume/download''"

text \<open>Python's \<^verbatim>\<open>s.endswith(suf)\<close>.\<close>

definition endswith :: "string \<Rightarrow> string \<Rightarrow> bool" where
  "endswith s suf = (length suf \<le> length s \<and> drop (length s - length suf) s = suf)"

subsection \<open>Responses\<close>

record ResumeInfo =
  info_id :: string
  info_fileName :: string
  fileUrl :: string
  info_uploadedAt :: string
  info_fileSize :: nat
  info_analysis :: "analysis option"

record ResumeUploadResponse =
  upload_message :: string
  upload_resume :: ResumeInfo

text \<open>
  A \<^verbatim>\<open>FileResponse\<close>: the path, the download name and the media type the endpoint
  passes, and the bytes the response streams from that path.
\<close>

record FileResponse =
  response_path :: string
  response_filename :: string
  media_type :: string
  response_body :: bytes

record AnalyzeResponse =
  analyze_message :: string
  analyze_analysis :: analysis

record CreatedStudent =
  created_id :: string
  created_name :: string
  created_email :: string
  created_university :: "string option"
  created_major :: "string option"

text \<open>The multipart upload: \<^verbatim>\<open>resume.filename\<close> and what \<^verbatim>\<open>resume.read()\<close> returns.\<close>

record UploadFile =
  upload_filename :: string
  upload_content :: bytes

subsection \<open>What the environment decides\<close>

text \<open>
  The multi-step sequences of upload and delete can stop partway. Whether
  \<^verbatim>\<open>unlink\<close> raises, whether \<^verbatim>\<open>open(file_path, "wb")\<close> raises (so that no new
  file is created), and whether \<^verbatim>\<open>update_one\<close> raises (so that no document is
  changed) is decided by the environment, so it is an input of the model. In the other
  endpoints the database calls are taken to return.
\<close>

record faults =
  unlink_raises :: bool
  write_raises :: bool
  update_raises :: bool

definition no_faults :: faults where
  "no_faults = \<lparr>unlink_raises = False, write_raises = False, update_raises = False\<rparr>"

text \<open>
  \<^verbatim>\<open>if p.exists(): try: p.unlink() except Exception: logger.warning(...)\<close>:
  the file is removed when it is there and \<^verbatim>\<open>unlink\<close> does not raise; nothing is raised
  either way.
\<close>

definition unlink_best_effort :: "faults \<Rightarrow> string \<Rightarrow> state \<Rightarrow> state" where
  "unlink_best_effort f p st =
     (if files st p \<noteq> None
      then (if unlink_raises f then st else st\<lparr>files := (files st)(p := None)\<rparr>)
      else st)"

subsection \<open>Resume storage endpoints\<close>

text \<open>\<^verbatim>\<open>GET /api/students/{student_id}/resume\<close>: the body of the \<^verbatim>\<open>try\<close>, then the endpoint.\<close>

definition get_student_resume_try :: "state \<Rightarrow> string \<Rightarrow> exn + ResumeInfo" where
  "get_student_resume_try st student_id =
     (case ObjectId student_id of
        Inl e \<Rightarrow> Inl e
      | Inr i \<Rightarrow>
         (case find_one (by_id i) (students_collection st) of
            None \<Rightarrow> Inl (HTTPException 404 ''Student not found'')
          | Some student \<Rightarrow>
             (case resumeFile student of
                None \<Rightarrow> Inl (HTTPException 404 ''No resume found'')
              | Some resume_data \<Rightarrow>
                 Inr \<lparr>info_id = str_oid (doc_id student),
                      info_fileName = originalName resume_data,
                      fileUrl = download_url student_id,
                      info_uploadedAt = uploadedAt resume_data,
                      info_fileSize = fileSize resume_data,
                      info_analysis = resumeAnalysis student\<rparr>)))"

definition get_student_resume :: "state \<Rightarrow> string \<Rightarrow> (exn + ResumeInfo) \<times> state" where
  "get_student_resume st student_id =
     (catch_all ''Failed to fetch resume'' (get_student_resume_try st student_id), st)"

text \<open>
  \<^verbatim>\<open>POST /api/students/{student_id}/resume\<close>. \<open>timestamp\<close> is what
  \<^verbatim>\<open>datetime.now().strftime("%Y%m%d%H%M%S")\<close> returns and \<open>now\<close> what the later
  \<^verbatim>\<open>datetime.now().isoformat()\<close> returns. The test
  \<^verbatim>\<open>"filePath" in student["resumeFile"]\<close> holds of every \<open>resume_data\<close>.
\<close>

definition upload_student_resume_try ::
  "faults \<Rightarrow> string \<Rightarrow> string \<Rightarrow> state \<Rightarrow> string \<Rightarrow> UploadFile
     \<Rightarrow> (exn + ResumeUploadResponse) \<times> state" where
  "upload_student_resume_try f timestamp now st student_id resume =
     (if \<not> endswith (upload_filename resume) ''.pdf''
      then (Inl (HTTPException 400 ''Only PDF files are allowed''), st)
      else
        let content = upload_content resume in
        if length content > MAX_FILE_SIZE
        then (Inl (HTTPException 413 ''File too large. Maximum size is 5MB''), st)
        else
          (case ObjectId student_id of
             Inl e \<Rightarrow> (Inl e, st)
           | Inr i \<Rightarrow>
              (case find_one (by_id i) (students_collection st) of
                 None \<Rightarrow> (Inl (HTTPException 404 ''Student not found''), st)
               | Some student \<Rightarrow>
                  let fname = stored_name student_id timestamp (upload_filename resume);
                      file_path = path_join UPLOAD_DIR fname;
                      st1 = (case resumeFile student of
                               None \<Rightarrow> st
                             | Some old \<Rightarrow> unlink_best_effort f (filePath old) st)
                  in
                  if write_raises f then (Inl OSError, st1)
                  else
                    let st2 = st1\<lparr>files := (files st1)(file_path \<mapsto> content)\<rparr>;
                        resume_data = \<lparr>originalName = upload_filename resume,
                                       fileName = fname,
                                       filePath = file_path,
                                       fileSize = length content,
                                       uploadedAt = now\<rparr>
                    in
                    if update_raises f then (Inl PyMongoError, st2)
                    else
                      let st3 = st2\<lparr>students_collection :=
                                   update_one (by_id i)
                                     (\<lambda>d. d\<lparr>resumeFile := Some resume_data\<rparr>)
                                     (students_collection st2)\<rparr>
                      in
                      (Inr \<lparr>upload_message = ''Resume uploaded successfully'',
                            upload_resume = \<lparr>info_id = str_oid (doc_id student),
                                       info_fileName = originalName resume_data,
                                       fileUrl = download_url student_id,
                                       info_uploadedAt = uploadedAt resume_data,
                                       info_fileSize = fileSize resume_data,
                                       info_analysis = None\<rparr>\<rparr>,
                       st3))))"

definition upload_student_resume ::
  "faults \<Rightarrow> string \<Rightarrow> string \<Rightarrow> state \<Rightarrow> string \<Rightarrow> UploadFile
     \<Rightarrow> (exn + ResumeUploadResponse) \<times> state" where
  "upload_student_resume f timestamp now st student_id resume =
     (case upload_student_resume_try f timestamp now st student_id resume of
        (r, st') \<Rightarrow> (reraise_http ''Failed to upload resume'' r, st'))"

text \<open>\<^verbatim>\<open>GET /api/students/{student_id}/resume/download\<close>.\<close>

definition download_student_resume_try :: "state \<Rightarrow> string \<Rightarrow> exn + FileResponse" where
  "download_student_resume_try st student_id =
     (case ObjectId student_id of
        Inl e \<Rightarrow> Inl e
      | Inr i \<Rightarrow>
         (case find_one (by_id i) (students_collection st) of
            None \<Rightarrow> Inl (HTTPException 404 ''Resume not found'')
          | Some student \<Rightarrow>
             (case resumeFile student of
                None \<Rightarrow> Inl (HTTPException 404 ''Resume not found'')
              | Some rf \<Rightarrow>
                 (case files st (filePath rf) of
                    None \<Rightarrow> Inl (HTTPException 404 ''Resume file not found on disk'')
                  | Some bs \<Rightarrow>
                     Inr \<lparr>response_path = filePath rf,
                          response_filename = originalName rf,
                          media_type = ''application/pdf'',
                          response_body = bs\<rparr>))))"

definition download_student_resume :: "state \<Rightarrow> string \<Rightarrow> (exn + FileResponse) \<times> state" where
  "download_student_resume st student_id =
     (reraise_http ''Failed to download resume'' (download_student_resume_try st student_id), st)"

text \<open>
  \<^verbatim>\<open>POST /api/students/{student_id}/resume/analyze\<close>. \<open>now\<close> is what
  \<^verbatim>\<open>datetime.now().isoformat()\<close> returns.
\<close>

definition mock_analysis :: "string \<Rightarrow> analysis" where
  "mock_analysis now =
     \<lparr>overallScore = 8.5,
      categoryScores =
        [(''bulletPoints'', 8), (''header'', 9), (''education'', 8), (''experience'', 9),
         (''secondarySections'', 7), (''formatting'', 8), (''language'', 8),
         (''contentQuality'', 9), (''targeting'', 8), (''universalStandards'', 8)],
      strengths =
        [''Strong technical skills section'',
         ''Quantified achievements in experience'',
         ''Clear and concise formatting''],
      priorityImprovements =
        [''Add more specific metrics to bullet points'',
         ''Include relevant keywords for target roles''],
      overallAssessment = ''Strong resume with good technical content and clear structure.'',
      lastAnalyzed = now\<rparr>"

definition analyze_student_resume_try ::
  "string \<Rightarrow> state \<Rightarrow> string \<Rightarrow> (exn + AnalyzeResponse) \<times> state" where
  "analyze_student_resume_try now st student_id =
     (case ObjectId student_id of
        Inl e \<Rightarrow> (Inl e, st)
      | Inr i \<Rightarrow>
         (case find_one (by_id i) (students_collection st) of
            None \<Rightarrow> (Inl (HTTPException 404 ''Student not found''), st)
          | Some student \<Rightarrow>
             (case resumeFile student of
                None \<Rightarrow>
                  (Inl (HTTPException 400
                          ''No resume file found. Please upload a resume first.''), st)
              | Some rf \<Rightarrow>
                  let a = mock_analysis now;
                      st1 = st\<lparr>students_collection :=
                                 update_one (by_id i) (\<lambda>d. d\<lparr>resumeAnalysis := Some a\<rparr>)
                                   (students_collection st)\<rparr>
                  in (Inr \<lparr>analyze_message = ''Resume analyzed successfully'',
                           analyze_analysis = a\<rparr>, st1))))"

definition analyze_student_resume ::
  "string \<Rightarrow> state \<Rightarrow> string \<Rightarrow> (exn + AnalyzeResponse) \<times> state" where
  "analyze_student_resume now st student_id =
     (case analyze_student_resume_try now st student_id of
        (r, st') \<Rightarrow> (reraise_http ''Failed to analyze resume'' r, st'))"

text \<open>\<^verbatim>\<open>DELETE /api/students/{student_id}/resume\<close>; the result is the message.\<close>

definition delete_student_resume_try ::
  "faults \<Rightarrow> state \<Rightarrow> string \<Rightarrow> (exn + string) \<times> state" where
  "delete_student_resume_try f st student_id =
     (case ObjectId student_id of
        Inl e \<Rightarrow> (Inl e, st)
      | Inr i \<Rightarrow>
         (case find_one (by_id i) (students_collection st) of
            None \<Rightarrow> (Inl (HTTPException 404 ''Student not found''), st)
          | Some student \<Rightarrow>
             (case resumeFile student of
                None \<Rightarrow> (Inl (HTTPException 404 ''No resume found''), st)
              | Some rf \<Rightarrow>
                  let st1 = unlink_best_effort f (filePath rf) st in
                  if update_raises f then (Inl PyMongoError, st1)
                  else
                    let st2 = st1\<lparr>students_collection :=
                                 update_one (by_id i)
                                   (\<lambda>d. d\<lparr>resumeFile := None, resumeText := None,
                                           resumeAnalysis := None\<rparr>)
                                   (students_collection st1)\<rparr>
                    in (Inr ''Resume deleted successfully'', st2))))"

definition delete_student_resume ::
  "faults \<Rightarrow> state \<Rightarrow> string \<Rightarrow> (exn + string) \<times> state" where
  "delete_student_resume f st student_id =
     (case delete_student_resume_try f st student_id of
        (r, st') \<Rightarrow> (reraise_http ''Failed to delete resume'' r, st'))"

subsection \<open>Student management endpoints\<close>

text \<open>
  \<^verbatim>\<open>GET /api/students\<close>: the projection leaves the three resume fields out, and each
  \<^verbatim>\<open>_id\<close> is replaced by its string, returned here beside the document.
\<close>

definition get_students :: "state \<Rightarrow> (exn + (string \<times> student) list) \<times> state" where
  "get_students st =
     (catch_all ''Failed to fetch students''
        (Inr (map (\<lambda>d. (str_oid (doc_id d),
                         d\<lparr>resumeFile := None, resumeText := None, resumeAnalysis := None\<rparr>))
                (students_collection st))), st)"

text \<open>\<^verbatim>\<open>GET /api/students/{student_id}\<close>.\<close>

definition get_student_try :: "state \<Rightarrow> string \<Rightarrow> exn + string \<times> student" where
  "get_student_try st student_id =
     (case ObjectId student_id of
        Inl e \<Rightarrow> Inl e
      | Inr i \<Rightarrow>
         (case find_one (by_id i) (students_collection st) of
            None \<Rightarrow> Inl (HTTPException 404 ''Student not found'')
          | Some student \<Rightarrow> Inr (str_oid (doc_id student), student)))"

definition get_student :: "state \<Rightarrow> string \<Rightarrow> (exn + string \<times> student) \<times> state" where
  "get_student st student_id =
     (reraise_http ''Failed to fetch student'' (get_student_try st student_id), st)"

text \<open>
  \<^verbatim>\<open>POST /api/students\<close>. \<open>new_id\<close> is the \<^verbatim>\<open>_id\<close> the driver generates for the
  inserted document; \<open>t1\<close> and \<open>t2\<close> are the two readings of the clock.
\<close>

definition create_student_try ::
  "oid \<Rightarrow> string \<Rightarrow> string \<Rightarrow> state \<Rightarrow> StudentCreate
     \<Rightarrow> (exn + string \<times> CreatedStudent) \<times> state" where
  "create_student_try new_id t1 t2 st student =
     (case find_one (\<lambda>d. email d = email student) (students_collection st) of
        Some existing_student \<Rightarrow>
          (Inl (HTTPException 409 ''Student with this email already exists''), st)
      | None \<Rightarrow>
          let student_data =
                StudentCreate.extend student
                  (student.fields new_id True t1 t2 None None None)
          in
          (case insert_one student_data (students_collection st) of
             Inl e \<Rightarrow> (Inl e, st)
           | Inr coll \<Rightarrow>
               (Inr (''Student created successfully'',
                     \<lparr>created_id = str_oid new_id,
                      created_name = name student_data,
                      created_email = email student_data,
                      created_university = university student_data,
                      created_major = major student_data\<rparr>),
                st\<lparr>students_collection := coll\<rparr>)))"

definition create_student ::
  "oid \<Rightarrow> string \<Rightarrow> string \<Rightarrow> state \<Rightarrow> StudentCreate
     \<Rightarrow> (exn + string \<times> CreatedStudent) \<times> state" where
  "create_student new_id t1 t2 st student =
     (case create_student_try new_id t1 t2 st student of
        (r, st') \<Rightarrow> (reraise_http ''Failed to create student'' r, st'))"

subsection \<open>What a client observes\<close>

text \<open>
  The \<^verbatim>\<open>resume_data\<close> dictionary an upload builds (lines 175 to 181 of the source),
  as a function of the request and the two readings of the clock.
\<close>

definition new_resume_data :: "string \<Rightarrow> string \<Rightarrow> string \<Rightarrow> UploadFile \<Rightarrow> resume_data" where
  "new_resume_data student_id timestamp now resume =
     \<lparr>originalName = upload_filename resume,
      fileName = stored_name student_id timestamp (upload_filename resume),
      filePath = path_join UPLOAD_DIR
                   (stored_name student_id timestamp (upload_filename resume)),
      fileSize = length (upload_content resume),
      uploadedAt = now\<rparr>"


text \<open>
  The status of the HTTP response: 200 for a returned value, the status of an
  \<open>HTTPException\<close>, and 500 for any other exception that leaves an endpoint.
\<close>

fun response_status :: "exn + 'a \<Rightarrow> nat" where
  "response_status (Inr v) = 200"
| "response_status (Inl (HTTPException c d)) = c"
| "response_status (Inl e) = 500"

text \<open>The document a path parameter refers to, when it is an identifier of a stored document.\<close>

definition lookup_student :: "state \<Rightarrow> string \<Rightarrow> student option" where
  "lookup_student st student_id =
     (case ObjectId student_id of
        Inl e \<Rightarrow> None
      | Inr i \<Rightarrow> find_one (by_id i) (students_collection st))"

text \<open>
  Some document of the collection points at a path with no file: the database references a
  binary that is not on disk.
\<close>

definition referenced_missing :: "state \<Rightarrow> bool" where
  "referenced_missing st =
     list_ex (\<lambda>d. case resumeFile d of
                     None \<Rightarrow> False
                   | Some rf \<Rightarrow> files st (filePath rf) = None)
       (students_collection st)"

subsection \<open>A concrete scenario\<close>

text \<open>
  The identifier and the student of \<^verbatim>\<open>test_api.py\<close>, the PDF header it uploads, and a
  resume stored by an earlier upload.
\<close>

definition example_id :: string where
  "example_id = ''507f1f77bcf86cd799439011''"

definition example_oid :: oid where
  "example_oid = [80, 127, 31, 119, 188, 248, 108, 215, 153, 67, 144, 17]"

definition example_profile :: StudentCreate where
  "example_profile =
     \<lparr>name = ''Test Student'', email = ''test@example.com'',
      university = Some ''Test University'', major = Some ''Computer Science'',
      graduationYear = Some 2024, skills = [], interests = [], careerGoals = [],
      jobPreferences = []\<rparr>"

definition example_student :: student where
  "example_student =
     \<lparr>name = ''Test Student'', email = ''test@example.com'',
      university = Some ''Test University'', major = Some ''Computer Science'',
      graduationYear = Some 2024, skills = [], interests = [], careerGoals = [],
      jobPreferences = [],
      doc_id = example_oid, isActive = True,
      createdAt = ''2024-01-01T09:00:00'', lastLogin = ''2024-01-01T09:00:00'',
      resumeFile = None, resumeText = None, resumeAnalysis = None\<rparr>"

definition example_pdf :: UploadFile where
  "example_pdf =
     \<lparr>upload_filename = ''test_resume.pdf'',
      upload_content = [37, 80, 68, 70, 45, 49, 46, 52, 10]\<rparr>"

definition old_resume :: resume_data where
  "old_resume =
     \<lparr>originalName = ''old.pdf'',
      fileName = ''resume-507f1f77bcf86cd799439011-20240101100000-old.pdf'',
      filePath = ''uploads/resumes/resume-507f1f77bcf86cd799439011-20240101100000-old.pdf'',
      fileSize = 3,
      uploadedAt = ''2024-01-01T10:00:00''\<rparr>"

text \<open>A collection with the student and no resume; a collection where the student has one.\<close>

definition fresh_state :: state where
  "fresh_state = \<lparr>students_collection = [example_student], files = Map.empty\<rparr>"

definition stored_state :: state where
  "stored_state =
     \<lparr>students_collection = [example_student\<lparr>resumeFile := Some old_resume\<rparr>],
      files = [filePath old_resume \<mapsto> [1, 2, 3]]\<rparr>"

text \<open>The state after the student of \<open>fresh_state\<close> has uploaded the PDF.\<close>

definition uploaded_state :: state where
  "uploaded_state =
     \<lparr>students_collection =
        [example_student\<lparr>resumeFile := Some
           \<lparr>originalName = ''test_resume.pdf'',
            fileName = ''resume-507f1f77bcf86cd799439011-20240101120000-test_resume.pdf'',
            filePath = ''uploads/resumes/resume-507f1f77bcf86cd799439011-20240101120000-test_resume.pdf'',
            fileSize = 9,
            uploadedAt = ''2024-01-01T12:00:00''\<rparr>\<rparr>],
      files = [''uploads/resumes/resume-507f1f77bcf86cd799439011-20240101120000-test_resume.pdf''
                 \<mapsto> [37, 80, 68, 70, 45, 49, 46, 52, 10]]\<rparr>"

text \<open>Fault settings: the database update raises; the write of the new file raises.\<close>

definition update_fails :: faults where
  "update_fails = \<lparr>unlink_raises = False, write_raises = False, update_raises = True\<rparr>"

definition write_fails :: faults where
  "write_fails = \<lparr>unlink_raises = False, write_raises = True, update_raises = False\<rparr>"

text \<open>Uploads around the size limit: one byte over it with two file names, and exactly at it.\<close>

definition oversized_text :: UploadFile where
  "oversized_text =
     \<lparr>upload_filename = ''resume.txt'',
      upload_content = replicate (5 * 1024 * 1024 + 1) 0\<rparr>"

definition oversized_pdf :: UploadFile where
  "oversized_pdf =
     \<lparr>upload_filename = ''resume.pdf'',
      upload_content = replicate (5 * 1024 * 1024 + 1) 0\<rparr>"

definition limit_pdf :: UploadFile where
  "limit_pdf =
     \<lparr>upload_filename = ''resume.pdf'',
      upload_content = replicate (5 * 1024 * 1024) 0\<rparr>"

text \<open>
  Two more profiles: one with the e-mail address of the stored student and every other
  field different, one with an address of its own. \<open>other_oid\<close> is a second identifier.
\<close>

definition duplicate_profile :: StudentCreate where
  "duplicate_profile =
     \<lparr>name = ''Somebody Else'', email = ''test@example.com'',
      university = None, major = Some ''History'',
      graduationYear = None, skills = [''latin''], interests = [], careerGoals = [],
      jobPreferences = [(''remote'', JBool True)]\<rparr>"

definition second_profile :: StudentCreate where
  "second_profile =
     \<lparr>name = ''Second Student'', email = ''second@example.com'',
      university = Some [], major = Some [],
      graduationYear = None, skills = [], interests = [], careerGoals = [],
      jobPreferences = []\<rparr>"

definition other_id :: string where
  "other_id = ''507f1f77bcf86cd799439012''"

definition other_oid :: oid where
  "other_oid = [80, 127, 31, 119, 188, 248, 108, 215, 153, 67, 144, 18]"

text \<open>The stored resume has been analysed before, at another time.\<close>

definition analyzed_state :: state where
  "analyzed_state =
     \<lparr>students_collection =
        [example_student\<lparr>resumeFile := Some old_resume,
                         resumeAnalysis := Some (mock_analysis ''2023-12-31T08:00:00'')\<rparr>],
      files = [filePath old_resume \<mapsto> [1, 2, 3]]\<rparr>"

text \<open>
  A collection of two students: the second student first, without a resume, then the
  student of the scenario with a stored and analysed resume.
\<close>

definition other_student :: student where
  "other_student =
     \<lparr>name = ''Second Student'', email = ''second@example.com'',
      university = Some [], major = Some [],
      graduationYear = None, skills = [], interests = [], careerGoals = [],
      jobPreferences = [],
      doc_id = other_oid, isActive = True,
      createdAt = ''2024-01-01T09:30:00'', lastLogin = ''2024-01-01T09:30:00'',
      resumeFile = None, resumeText = None, resumeAnalysis = None\<rparr>"

definition two_student_state :: state where
  "two_student_state =
     \<lparr>students_collection =
        [other_student,
         example_student\<lparr>resumeFile := Some old_resume,
                         resumeAnalysis := Some (mock_analysis ''2023-12-31T08:00:00'')\<rparr>],
      files = [filePath old_resume \<mapsto> [1, 2, 3]]\<rparr>"

section \<open>Properties\<close>

subsection \<open>Auxiliary facts\<close>

lemma reraise_http_Inr_iff [simp]: "reraise_http msg r = Inr v \<longleftrightarrow> r = Inr v"
  by (cases "(msg, r)" rule: reraise_http.cases) auto

lemma catch_all_Inr_iff [simp]: "catch_all msg r = Inr v \<longleftrightarrow> r = Inr v"
  by (cases r) auto

lemma ObjectId_Inl: "ObjectId s = Inl e \<Longrightarrow> e = InvalidId"
  by (auto simp: ObjectId_def split: if_splits option.splits)

lemma ObjectId_example [simp]: "ObjectId example_id = Inr example_oid"
  by (simp add: ObjectId_def example_id_def example_oid_def hexval_def isspace_def)

lemma str_oid_example [simp]: "str_oid example_oid = example_id"
  by (simp add: str_oid_def example_id_def example_oid_def hexdigit_def)

lemmas ObjectId_literal = ObjectId_example [unfolded example_id_def]

lemmas str_oid_literal = str_oid_example [unfolded example_id_def]

lemma ObjectId_other [simp]: "ObjectId other_id = Inr other_oid"
  by (simp add: ObjectId_def other_id_def other_oid_def hexval_def isspace_def)

lemma ObjectId_invalid [simp]: "ObjectId ''invalid'' = Inl InvalidId"
  by (simp add: ObjectId_def)

lemma find_one_by_id_Some:
  "find_one (by_id i) coll = Some s \<Longrightarrow> doc_id s = i \<and> s \<in> set coll"
  by (induction coll) (auto simp: find_one_def by_id_def split: if_splits)

lemma find_one_update_one:
  "find_one (by_id i) coll = Some s \<Longrightarrow> doc_id (u s) = doc_id s
     \<Longrightarrow> find_one (by_id i) (update_one (by_id i) u coll) = Some (u s)"
  by (induction coll) (auto simp: find_one_def by_id_def split: if_splits)

lemma map_update_one_frame:
  "(\<And>d. g (u d) = g d) \<Longrightarrow> map g (update_one q u coll) = map g coll"
  by (induction coll) auto

lemma find_one_email:
  "(find_one (\<lambda>d. email d = e) coll = None) \<longleftrightarrow> e \<notin> set (map email coll)"
  by (induction coll) (auto simp: find_one_def)

lemma lookup_student_Some:
  "lookup_student st student_id = Some s \<Longrightarrow>
     \<exists>i. ObjectId student_id = Inr i \<and> find_one (by_id i) (students_collection st) = Some s"
  by (auto simp: lookup_student_def split: sum.splits)

lemma unlink_best_effort_coll [simp]:
  "students_collection (unlink_best_effort f p st) = students_collection st"
  by (simp add: unlink_best_effort_def)

lemma unlink_best_effort_files:
  "files (unlink_best_effort f p st) =
     (if unlink_raises f then files st else (files st)(p := None))"
  by (auto simp: unlink_best_effort_def fun_eq_iff)

text \<open>The students the scenario's states hold under \<open>example_id\<close>.\<close>

lemma lookup_fresh:
  "lookup_student fresh_state example_id = Some example_student"
  by (simp add: lookup_student_def fresh_state_def find_one_def by_id_def example_student_def)

lemma lookup_stored:
  "lookup_student stored_state example_id
     = Some (example_student\<lparr>resumeFile := Some old_resume\<rparr>)"
  by (simp add: lookup_student_def stored_state_def find_one_def by_id_def example_student_def)

lemma lookup_analyzed:
  "lookup_student analyzed_state example_id
     = Some (example_student\<lparr>resumeFile := Some old_resume,
               resumeAnalysis := Some (mock_analysis ''2023-12-31T08:00:00'')\<rparr>)"
  by (simp add: lookup_student_def analyzed_state_def find_one_def by_id_def
        example_student_def)

text \<open>What a successful upload has done to the collection and to the disk.\<close>

lemma upload_success:
  assumes "upload_student_resume f timestamp now st student_id resume = (Inr resp, st')"
  shows "\<exists>i s. ObjectId student_id = Inr i
           \<and> find_one (by_id i) (students_collection st) = Some s
           \<and> students_collection st' =
               update_one (by_id i)
                 (\<lambda>d. d\<lparr>resumeFile := Some
                    \<lparr>originalName = upload_filename resume,
                     fileName = stored_name student_id timestamp (upload_filename resume),
                     filePath = path_join UPLOAD_DIR
                                  (stored_name student_id timestamp (upload_filename resume)),
                     fileSize = length (upload_content resume),
                     uploadedAt = now\<rparr>\<rparr>)
                 (students_collection st)
           \<and> files st' (path_join UPLOAD_DIR
                  (stored_name student_id timestamp (upload_filename resume)))
               = Some (upload_content resume)"
  using assms
  by (auto simp: upload_student_resume_def upload_student_resume_try_def Let_def
       split: if_splits sum.splits option.splits)

lemma filter_update_one:
  "(\<And>d. q (u d) = q d) \<Longrightarrow>
     filter (\<lambda>d. \<not> q d) (update_one q u coll) = filter (\<lambda>d. \<not> q d) coll"
  by (induction coll) auto

text \<open>
  The collection after an upload: on success the first document with the student's
  identifier has its \<open>resumeFile\<close> set, on any failure nothing is changed.
\<close>

lemma upload_coll_exact:
  "students_collection (snd (upload_student_resume f timestamp now st student_id resume)) =
     (case (fst (upload_student_resume f timestamp now st student_id resume),
            ObjectId student_id) of
        (Inr resp, Inr i) \<Rightarrow>
          update_one (by_id i)
            (\<lambda>d. d\<lparr>resumeFile := Some (new_resume_data student_id timestamp now resume)\<rparr>)
            (students_collection st)
      | _ \<Rightarrow> students_collection st)"
  by (auto simp: upload_student_resume_def upload_student_resume_try_def Let_def
        new_resume_data_def
       split: if_splits sum.splits option.splits)


text \<open>The upload of the scenario, evaluated.\<close>

lemma upload_fresh:
  "upload_student_resume no_faults ''20240101120000'' ''2024-01-01T12:00:00''
           fresh_state example_id example_pdf =
         (Inr \<lparr>upload_message = ''Resume uploaded successfully'',
               upload_resume =
                 \<lparr>info_id = example_id, info_fileName = ''test_resume.pdf'',
                  fileUrl = download_url example_id,
                  info_uploadedAt = ''2024-01-01T12:00:00'', info_fileSize = 9,
                  info_analysis = None\<rparr>\<rparr>, uploaded_state)"
  by (simp add: upload_student_resume_def upload_student_resume_try_def fresh_state_def
        example_pdf_def endswith_def MAX_FILE_SIZE_def no_faults_def find_one_def by_id_def
        example_student_def uploaded_state_def stored_name_def path_join_def path_parts_def UPLOAD_DIR_def
        example_id_def download_url_def Let_def ObjectId_literal str_oid_literal)

text \<open>What a successful analysis has returned and stored.\<close>

lemma analyze_present:
  assumes "lookup_student st student_id = Some s" and "resumeFile s = Some rf"
  shows "\<exists>i. ObjectId student_id = Inr i
           \<and> analyze_student_resume now st student_id =
               (Inr \<lparr>analyze_message = ''Resume analyzed successfully'',
                     analyze_analysis = mock_analysis now\<rparr>,
                st\<lparr>students_collection :=
                     update_one (by_id i)
                       (\<lambda>d. d\<lparr>resumeAnalysis := Some (mock_analysis now)\<rparr>)
                       (students_collection st)\<rparr>)
           \<and> lookup_student
                 (st\<lparr>students_collection :=
                     update_one (by_id i)
                       (\<lambda>d. d\<lparr>resumeAnalysis := Some (mock_analysis now)\<rparr>)
                       (students_collection st)\<rparr>) student_id
               = Some (s\<lparr>resumeAnalysis := Some (mock_analysis now)\<rparr>)"
proof -
  from lookup_student_Some [OF assms(1)] obtain i where
    i: "ObjectId student_id = Inr i" and
    s: "find_one (by_id i) (students_collection st) = Some s"
    by blast
  have "find_one (by_id i)
          (update_one (by_id i) (\<lambda>d. d\<lparr>resumeAnalysis := Some (mock_analysis now)\<rparr>)
             (students_collection st))
        = Some (s\<lparr>resumeAnalysis := Some (mock_analysis now)\<rparr>)"
    by (rule find_one_update_one [OF s]) simp
  with i s assms(2) show ?thesis
    by (simp add: analyze_student_resume_def analyze_student_resume_try_def Let_def
          lookup_student_def)
qed

subsection \<open>C1: the order of the steps of a replace\<close>

text \<open>
  C1, as the specification states it, at a concrete input: no execution of upload, even
  one that fails partway, leaves the database referencing a removed file. The student has
  a stored resume whose binary is on disk; the new file is written and then
  \<^verbatim>\<open>update_one\<close> raises. The endpoint answers 500, the old binary is gone, the
  collection is unchanged and so references the path of the removed binary.
\<close>

theorem upload_update_failure_counterexample:
  "\<not> referenced_missing stored_state
   \<and> upload_student_resume update_fails ''20240101120000'' ''2024-01-01T12:00:00''
         stored_state example_id example_pdf
       = (Inl (HTTPException 500 ''Failed to upload resume''),
          \<lparr>students_collection = [example_student\<lparr>resumeFile := Some old_resume\<rparr>],
           files = [''uploads/resumes/resume-507f1f77bcf86cd799439011-20240101120000-test_resume.pdf''
                      \<mapsto> [37, 80, 68, 70, 45, 49, 46, 52, 10]]\<rparr>)
   \<and> referenced_missing (snd (upload_student_resume update_fails ''20240101120000''
         ''2024-01-01T12:00:00'' stored_state example_id example_pdf))"
  by (simp add: upload_student_resume_def upload_student_resume_try_def stored_state_def
        example_pdf_def endswith_def MAX_FILE_SIZE_def update_fails_def find_one_def by_id_def
        example_student_def stored_name_def path_join_def path_parts_def UPLOAD_DIR_def old_resume_def
        example_id_def Let_def ObjectId_literal referenced_missing_def
        unlink_best_effort_def)

text \<open>
  C1, amended. In upload/replace, for every student that already has a stored resume, the
  old on-disk binary is deleted (best effort) before the new binary is written and before
  the database pointer is updated. So when \<^verbatim>\<open>unlink\<close> does not raise and the upload
  then fails at the write (the new file cannot be opened), or at the database update with a
  new path different from the old one, the endpoint answers 500, the collection is unchanged, the old path holds no
  file, and the database references a file that has been removed.
\<close>

theorem upload_deletes_old_file_first:
  assumes "lookup_student st student_id = Some s"
    and "resumeFile s = Some old"
    and "endswith (upload_filename resume) ''.pdf''"
    and "length (upload_content resume) \<le> MAX_FILE_SIZE"
    and "\<not> unlink_raises f"
    and "write_raises f
         \<or> (update_raises f
             \<and> filePath old \<noteq> path_join UPLOAD_DIR
                   (stored_name student_id timestamp (upload_filename resume)))"
  shows "fst (upload_student_resume f timestamp now st student_id resume)
           = Inl (HTTPException 500 ''Failed to upload resume'')
       \<and> students_collection (snd (upload_student_resume f timestamp now st student_id resume))
           = students_collection st
       \<and> files (snd (upload_student_resume f timestamp now st student_id resume)) (filePath old)
           = None
       \<and> referenced_missing (snd (upload_student_resume f timestamp now st student_id resume))"
proof -
  from lookup_student_Some [OF assms(1)] obtain i where
    i: "ObjectId student_id = Inr i" and
    s: "find_one (by_id i) (students_collection st) = Some s"
    by blast
  let ?out = "upload_student_resume f timestamp now st student_id resume"
  have r: "fst ?out = Inl (HTTPException 500 ''Failed to upload resume'')"
    and c: "students_collection (snd ?out) = students_collection st"
    and d: "files (snd ?out) (filePath old) = None"
    using assms(2-6) i s
    by (auto simp: upload_student_resume_def upload_student_resume_try_def Let_def
          unlink_best_effort_files)
  from s have "s \<in> set (students_collection st)"
    by (simp add: find_one_by_id_Some)
  with assms(2) c d have "referenced_missing (snd ?out)"
    by (auto simp: referenced_missing_def list_ex_iff intro!: bexI [of _ s])
  with r c d show ?thesis by simp
qed

theorem upload_deletes_old_file_first_witness:
  "lookup_student stored_state example_id
     = Some (example_student\<lparr>resumeFile := Some old_resume\<rparr>)
   \<and> files stored_state (filePath old_resume) = Some [1, 2, 3]
   \<and> fst (upload_student_resume write_fails ''20240101120000'' ''2024-01-01T12:00:00''
            stored_state example_id example_pdf)
       = Inl (HTTPException 500 ''Failed to upload resume'')
   \<and> students_collection (snd (upload_student_resume write_fails ''20240101120000''
            ''2024-01-01T12:00:00'' stored_state example_id example_pdf))
       = students_collection stored_state
   \<and> files (snd (upload_student_resume write_fails ''20240101120000''
            ''2024-01-01T12:00:00'' stored_state example_id example_pdf)) (filePath old_resume)
       = None
   \<and> referenced_missing (snd (upload_student_resume write_fails ''20240101120000''
            ''2024-01-01T12:00:00'' stored_state example_id example_pdf))"
proof -
  have e: "endswith (upload_filename example_pdf) ''.pdf''"
    by (simp add: example_pdf_def endswith_def)
  have m: "length (upload_content example_pdf) \<le> MAX_FILE_SIZE"
    by (simp add: example_pdf_def MAX_FILE_SIZE_def)
  have u: "\<not> unlink_raises write_fails"
    by (simp add: write_fails_def)
  have w: "write_raises write_fails
         \<or> (update_raises write_fails
             \<and> filePath old_resume \<noteq> path_join UPLOAD_DIR
                   (stored_name example_id ''20240101120000'' (upload_filename example_pdf)))"
    by (simp add: write_fails_def)
  have d: "files stored_state (filePath old_resume) = Some [1, 2, 3]"
    by (simp add: stored_state_def)
  have o: "resumeFile (example_student\<lparr>resumeFile := Some old_resume\<rparr>) = Some old_resume"
    by simp
  show ?thesis
    using upload_deletes_old_file_first
            [where now = "''2024-01-01T12:00:00''", OF lookup_stored o e m u w]
          lookup_stored d
    by simp
qed

subsection \<open>C2: fetching resume metadata of a missing student or resume\<close>

text \<open>
  The handler of \<^verbatim>\<open>get_student_resume\<close> has no \<^verbatim>\<open>except HTTPException: raise\<close>
  clause, so the endpoint never answers 404: its status is 200 or 500.
\<close>

lemma get_student_resume_status:
  "response_status (fst (get_student_resume st student_id)) \<in> {200, 500}"
  by (cases "get_student_resume_try st student_id") (simp_all add: get_student_resume_def)

text \<open>
  C2, evaluated where it fails. For a well-formed identifier of no student, and for a
  student without a resume, the body of \<^verbatim>\<open>get_student_resume\<close> raises the 404 the
  claim names, and the endpoint's own handler turns it into
  \<^verbatim>\<open>HTTPException(500, "Failed to fetch resume")\<close>.
\<close>

theorem get_student_resume_hides_not_found:
  "get_student_resume_try \<lparr>students_collection = [], files = Map.empty\<rparr> example_id
     = Inl (HTTPException 404 ''Student not found'')
   \<and> get_student_resume \<lparr>students_collection = [], files = Map.empty\<rparr> example_id
     = (Inl (HTTPException 500 ''Failed to fetch resume''),
        \<lparr>students_collection = [], files = Map.empty\<rparr>)
   \<and> get_student_resume_try fresh_state example_id
     = Inl (HTTPException 404 ''No resume found'')
   \<and> get_student_resume fresh_state example_id
     = (Inl (HTTPException 500 ''Failed to fetch resume''), fresh_state)"
  by (simp add: get_student_resume_def get_student_resume_try_def find_one_def fresh_state_def
        by_id_def example_student_def)

subsection \<open>C3: upload followed by download is a round trip\<close>

text \<open>
  C3. Whenever \<^verbatim>\<open>upload_student_resume\<close> accepts a file for a student (it returns its
  response), a download for the same student in the resulting state returns a
  \<open>FileResponse\<close> whose body is exactly the uploaded byte sequence, under the name the
  client gave and from the path the upload stored.
\<close>

theorem upload_download_roundtrip:
  assumes "upload_student_resume f timestamp now st student_id resume = (Inr resp, st')"
  shows "download_student_resume st' student_id =
           (Inr \<lparr>response_path = path_join UPLOAD_DIR
                    (stored_name student_id timestamp (upload_filename resume)),
                 response_filename = upload_filename resume,
                 media_type = ''application/pdf'',
                 response_body = upload_content resume\<rparr>, st')"
proof -
  let ?rd = "\<lparr>originalName = upload_filename resume,
              fileName = stored_name student_id timestamp (upload_filename resume),
              filePath = path_join UPLOAD_DIR
                           (stored_name student_id timestamp (upload_filename resume)),
              fileSize = length (upload_content resume),
              uploadedAt = now\<rparr>"
  from upload_success [OF assms] obtain i s where
    i: "ObjectId student_id = Inr i" and
    s: "find_one (by_id i) (students_collection st) = Some s" and
    coll: "students_collection st' =
             update_one (by_id i) (\<lambda>d. d\<lparr>resumeFile := Some ?rd\<rparr>) (students_collection st)" and
    disk: "files st' (filePath ?rd) = Some (upload_content resume)"
    by auto
  have "find_one (by_id i) (students_collection st') = Some (s\<lparr>resumeFile := Some ?rd\<rparr>)"
    unfolding coll by (rule find_one_update_one [OF s]) simp
  with i disk show ?thesis
    by (simp add: download_student_resume_def download_student_resume_try_def)
qed

theorem upload_download_roundtrip_witness:
  "upload_student_resume no_faults ''20240101120000'' ''2024-01-01T12:00:00''
           fresh_state example_id example_pdf =
         (Inr \<lparr>upload_message = ''Resume uploaded successfully'',
               upload_resume =
                 \<lparr>info_id = example_id, info_fileName = ''test_resume.pdf'',
                  fileUrl = download_url example_id,
                  info_uploadedAt = ''2024-01-01T12:00:00'', info_fileSize = 9,
                  info_analysis = None\<rparr>\<rparr>, uploaded_state)
   \<and> download_student_resume uploaded_state example_id =
         (Inr \<lparr>response_path =
                 ''uploads/resumes/resume-507f1f77bcf86cd799439011-20240101120000-test_resume.pdf'',
               response_filename = ''test_resume.pdf'',
               media_type = ''application/pdf'',
               response_body = [37, 80, 68, 70, 45, 49, 46, 52, 10]\<rparr>, uploaded_state)"
  using upload_download_roundtrip [OF upload_fresh] upload_fresh
  by (simp add: example_pdf_def path_join_def path_parts_def UPLOAD_DIR_def stored_name_def example_id_def)

subsection \<open>C4: the size limit\<close>

text \<open>
  C4, as the specification states it, at a concrete input: every upload of more than 5 MiB
  fails with HTTP 413. The file is one byte over the limit and its name ends in
  \<^verbatim>\<open>.txt\<close>; the file-type check runs first and the endpoint answers 400.
\<close>

theorem oversized_non_pdf_counterexample:
  "MAX_FILE_SIZE < length (upload_content oversized_text)
   \<and> upload_student_resume no_faults ''20240101120000'' ''2024-01-01T12:00:00''
        fresh_state example_id oversized_text
       = (Inl (HTTPException 400 ''Only PDF files are allowed''), fresh_state)
   \<and> response_status (fst (upload_student_resume no_faults ''20240101120000''
        ''2024-01-01T12:00:00'' fresh_state example_id oversized_text)) \<noteq> 413"
  by (simp add: upload_student_resume_def upload_student_resume_try_def oversized_text_def
        endswith_def MAX_FILE_SIZE_def)

text \<open>
  C4, amended. Every upload whose content is longer than 5 MiB fails with a validation
  error and changes nothing: with HTTP 413 when the file name ends in \<^verbatim>\<open>.pdf\<close>, and
  with the HTTP 400 of the file-type check, which runs first, otherwise. An upload of
  exactly 5 MiB is never answered with 413: the boundary is inclusive.
\<close>

theorem upload_size_check:
  "(MAX_FILE_SIZE < length (upload_content resume) \<longrightarrow>
      upload_student_resume f timestamp now st student_id resume =
        (Inl (if endswith (upload_filename resume) ''.pdf''
              then HTTPException 413 ''File too large. Maximum size is 5MB''
              else HTTPException 400 ''Only PDF files are allowed''), st))
   \<and> (length (upload_content resume) = 5 * 1024 * 1024 \<longrightarrow>
        response_status (fst (upload_student_resume f timestamp now st student_id resume))
          \<noteq> 413)"
  by (auto simp: upload_student_resume_def upload_student_resume_try_def Let_def
        MAX_FILE_SIZE_def split: sum.splits option.splits dest!: ObjectId_Inl)

theorem upload_size_check_witness:
  "MAX_FILE_SIZE < length (upload_content oversized_pdf)
   \<and> upload_student_resume no_faults ''20240101120000'' ''2024-01-01T12:00:00''
        fresh_state example_id oversized_pdf
       = (Inl (HTTPException 413 ''File too large. Maximum size is 5MB''), fresh_state)
   \<and> length (upload_content limit_pdf) = 5 * 1024 * 1024
   \<and> response_status (fst (upload_student_resume no_faults ''20240101120000''
        ''2024-01-01T12:00:00'' fresh_state example_id limit_pdf)) \<noteq> 413"
  using upload_size_check [of oversized_pdf no_faults "''20240101120000''"
          "''2024-01-01T12:00:00''" fresh_state example_id]
        upload_size_check [of limit_pdf no_faults "''20240101120000''"
          "''2024-01-01T12:00:00''" fresh_state example_id]
  by (simp add: oversized_pdf_def limit_pdf_def MAX_FILE_SIZE_def endswith_def)

subsection \<open>C5: deleting a resume\<close>

text \<open>
  What \<^verbatim>\<open>delete_student_resume\<close> itself does: for a student with a stored resume it
  clears \<open>resumeFile\<close>, \<open>resumeText\<close> and \<open>resumeAnalysis\<close> whether or not
  \<^verbatim>\<open>unlink\<close> raised, and for a student without one it answers 404.
\<close>

lemma delete_clears_resume_fields:
  assumes "lookup_student st student_id = Some s" and "resumeFile s = Some rf"
    and "\<not> update_raises f"
  shows "fst (delete_student_resume f st student_id) = Inr ''Resume deleted successfully''
       \<and> lookup_student (snd (delete_student_resume f st student_id)) student_id
           = Some (s\<lparr>resumeFile := None, resumeText := None, resumeAnalysis := None\<rparr>)"
proof -
  from lookup_student_Some [OF assms(1)] obtain i where
    i: "ObjectId student_id = Inr i" and
    s: "find_one (by_id i) (students_collection st) = Some s"
    by blast
  have "find_one (by_id i)
          (update_one (by_id i)
             (\<lambda>d. d\<lparr>resumeFile := None, resumeText := None, resumeAnalysis := None\<rparr>)
             (students_collection st))
        = Some (s\<lparr>resumeFile := None, resumeText := None, resumeAnalysis := None\<rparr>)"
    by (rule find_one_update_one [OF s]) simp
  with i s assms(2,3) show ?thesis
    by (simp add: delete_student_resume_def delete_student_resume_try_def Let_def
          lookup_student_def)
qed

lemma delete_without_resume:
  assumes "lookup_student st student_id = Some s" and "resumeFile s = None"
  shows "delete_student_resume f st student_id
           = (Inl (HTTPException 404 ''No resume found''), st)"
  using lookup_student_Some [OF assms(1)] assms(2)
  by (auto simp: delete_student_resume_def delete_student_resume_try_def)

text \<open>
  C5, evaluated where it fails. Deleting the stored resume of the scenario succeeds and
  leaves the student without \<open>resumeFile\<close> and \<open>resumeAnalysis\<close>; the
  \<^verbatim>\<open>get_student_resume\<close> that follows answers 500, not the 404 of the claim, for the
  reason given under C2.
\<close>

theorem delete_then_get_info_is_500:
  "delete_student_resume no_faults stored_state example_id
     = (Inr ''Resume deleted successfully'', fresh_state)
   \<and> lookup_student fresh_state example_id = Some example_student
   \<and> resumeFile example_student = None \<and> resumeAnalysis example_student = None
   \<and> get_student_resume fresh_state example_id
       = (Inl (HTTPException 500 ''Failed to fetch resume''), fresh_state)"
  by (simp add: delete_student_resume_def delete_student_resume_try_def stored_state_def
        fresh_state_def find_one_def by_id_def example_student_def old_resume_def
        unlink_best_effort_def no_faults_def Let_def lookup_student_def
        get_student_resume_def get_student_resume_try_def)

subsection \<open>C6: analysis needs the record, not the file\<close>

text \<open>
  C6. For every existing student, \<^verbatim>\<open>analyze_student_resume\<close> answers 400 if and only
  if the student document has no \<open>resumeFile\<close>, and then with the "no resume" message.
  When the \<open>resumeFile\<close> record is present it succeeds whatever the disk holds, so also
  when the referenced binary is absent: it never reads the stored file.
\<close>

theorem analyze_needs_only_the_record:
  assumes "lookup_student st student_id = Some s"
  shows "(response_status (fst (analyze_student_resume now st student_id)) = 400
            \<longleftrightarrow> resumeFile s = None)
       \<and> (resumeFile s = None \<longrightarrow>
            fst (analyze_student_resume now st student_id)
              = Inl (HTTPException 400
                       ''No resume file found. Please upload a resume first.''))
       \<and> (resumeFile s \<noteq> None \<longrightarrow>
            fst (analyze_student_resume now (st\<lparr>files := disk\<rparr>) student_id)
              = Inr \<lparr>analyze_message = ''Resume analyzed successfully'',
                     analyze_analysis = mock_analysis now\<rparr>)"
  using lookup_student_Some [OF assms]
  by (auto simp: analyze_student_resume_def analyze_student_resume_try_def Let_def
       split: option.splits)

theorem analyze_needs_only_the_record_witness:
  "lookup_student fresh_state example_id = Some example_student
   \<and> resumeFile example_student = None
   \<and> response_status (fst (analyze_student_resume ''2024-01-02T08:00:00'' fresh_state
        example_id)) = 400
   \<and> lookup_student stored_state example_id
        = Some (example_student\<lparr>resumeFile := Some old_resume\<rparr>)
   \<and> fst (analyze_student_resume ''2024-01-02T08:00:00'' (stored_state\<lparr>files := Map.empty\<rparr>)
        example_id)
       = Inr \<lparr>analyze_message = ''Resume analyzed successfully'',
              analyze_analysis = mock_analysis ''2024-01-02T08:00:00''\<rparr>"
  using analyze_needs_only_the_record [OF lookup_fresh, of "''2024-01-02T08:00:00''"]
        analyze_needs_only_the_record [OF lookup_stored, of "''2024-01-02T08:00:00''" Map.empty]
        lookup_fresh lookup_stored
  by (simp add: example_student_def)

subsection \<open>C7: e-mail addresses stay unique\<close>

text \<open>
  C7. In every state in which some student already has the e-mail address of the profile,
  \<^verbatim>\<open>create_student\<close> answers 409 whatever the other fields of the profile are, and
  leaves the state as it was; and every create keeps the e-mail addresses of the
  collection pairwise distinct.
\<close>

theorem create_duplicate_email:
  "(email profile \<in> set (map email (students_collection st)) \<longrightarrow>
      create_student new_id t1 t2 st profile =
        (Inl (HTTPException 409 ''Student with this email already exists''), st))
   \<and> (distinct (map email (students_collection st)) \<longrightarrow>
        distinct (map email (students_collection (snd (create_student new_id t1 t2 st profile)))))"
  using find_one_email [of "email profile" "students_collection st"]
  by (auto simp: create_student_def create_student_try_def insert_one_def Let_def
          StudentCreate.defs student.defs split: option.splits)

theorem create_duplicate_email_witness:
  "email duplicate_profile \<in> set (map email (students_collection fresh_state))
   \<and> create_student other_oid ''2024-01-02T08:00:00'' ''2024-01-02T08:00:01'' fresh_state
        duplicate_profile
       = (Inl (HTTPException 409 ''Student with this email already exists''), fresh_state)
   \<and> distinct (map email (students_collection fresh_state))
   \<and> map email (students_collection (snd (create_student other_oid ''2024-01-02T08:00:00''
        ''2024-01-02T08:00:01'' fresh_state second_profile)))
       = [''test@example.com'', ''second@example.com'']
   \<and> distinct (map email (students_collection (snd (create_student other_oid
        ''2024-01-02T08:00:00'' ''2024-01-02T08:00:01'' fresh_state second_profile))))"
proof -
  have d: "email duplicate_profile \<in> set (map email (students_collection fresh_state))"
    by (simp add: duplicate_profile_def fresh_state_def example_student_def)
  have u: "distinct (map email (students_collection fresh_state))"
    by (simp add: fresh_state_def)
  have c: "map email (students_collection (snd (create_student other_oid ''2024-01-02T08:00:00''
        ''2024-01-02T08:00:01'' fresh_state second_profile)))
       = [''test@example.com'', ''second@example.com'']"
    by (simp add: create_student_def create_student_try_def insert_one_def Let_def
          StudentCreate.defs student.defs find_one_def fresh_state_def example_student_def
          second_profile_def example_oid_def other_oid_def)
  show ?thesis
    using create_duplicate_email [of duplicate_profile fresh_state other_oid
            "''2024-01-02T08:00:00''" "''2024-01-02T08:00:01''"]
          create_duplicate_email [of second_profile fresh_state other_oid
            "''2024-01-02T08:00:00''" "''2024-01-02T08:00:01''"]
          d u c
    by simp
qed

subsection \<open>C8: fetching a student by a malformed identifier\<close>

text \<open>
  C8, as the specification states it, at a concrete input: an identifier that is not
  well-formed gets the 404 of an absent student. \<^verbatim>\<open>ObjectId("invalid")\<close> raises
  \<open>InvalidId\<close>, which is not an \<open>HTTPException\<close>, and the endpoint answers 500.
\<close>

theorem get_student_malformed_id_counterexample:
  "ObjectId ''invalid'' = Inl InvalidId
   \<and> get_student fresh_state ''invalid''
       = (Inl (HTTPException 500 ''Failed to fetch student''), fresh_state)
   \<and> response_status (fst (get_student fresh_state ''invalid'')) \<noteq> 404"
  by (simp add: get_student_def get_student_try_def)

text \<open>
  C8, amended. For every id string that is not a well-formed identifier
  (\<^verbatim>\<open>ObjectId\<close> raises), fetching that student fails with the internal error, HTTP 500
  "Failed to fetch student", and not with the error kind of an absent student: a
  well-formed identifier of no stored student gets HTTP 404 "Student not found".
\<close>

theorem get_student_malformed_id:
  "(ObjectId student_id = Inl e \<longrightarrow>
      get_student st student_id = (Inl (HTTPException 500 ''Failed to fetch student''), st))
   \<and> (ObjectId student_id = Inr i \<and> find_one (by_id i) (students_collection st) = None \<longrightarrow>
      get_student st student_id = (Inl (HTTPException 404 ''Student not found''), st))"
  by (auto simp: get_student_def get_student_try_def dest!: ObjectId_Inl)

theorem get_student_malformed_id_witness:
  "ObjectId ''not-an-object-id'' = Inl InvalidId
   \<and> get_student fresh_state ''not-an-object-id''
       = (Inl (HTTPException 500 ''Failed to fetch student''), fresh_state)
   \<and> ObjectId other_id = Inr other_oid
   \<and> find_one (by_id other_oid) (students_collection fresh_state) = None
   \<and> get_student fresh_state other_id
       = (Inl (HTTPException 404 ''Student not found''), fresh_state)"
proof -
  have a: "ObjectId ''not-an-object-id'' = Inl InvalidId"
    by (simp add: ObjectId_def)
  have b: "find_one (by_id other_oid) (students_collection fresh_state) = None"
    by (simp add: find_one_def by_id_def fresh_state_def example_student_def
          example_oid_def other_oid_def)
  show ?thesis
    using get_student_malformed_id [of "''not-an-object-id''" InvalidId fresh_state]
          get_student_malformed_id [of other_id _ fresh_state other_oid]
          a b
    by simp
qed

subsection \<open>C9: what an upload writes\<close>

text \<open>
  C9. An upload writes only the \<open>resumeFile\<close> field of the student's own document.
  When the upload returns its response, the collection afterwards is the collection before
  with \<open>resumeFile\<close> set, in the first document whose \<^verbatim>\<open>_id\<close> is
  \<^verbatim>\<open>ObjectId(student_id)\<close>, to the \<^verbatim>\<open>resume_data\<close> of this upload; on every failure
  the collection is unchanged. So the documents of all other students are untouched, every
  field but \<open>resumeFile\<close> is unchanged in every document, and in particular every
  \<open>resumeAnalysis\<close> is unchanged: the analysis of a previous resume survives a replace.
  No endpoint other than analyze and delete writes or removes a \<open>resumeAnalysis\<close>: the
  four reading endpoints return the state they got, and \<^verbatim>\<open>create_student\<close> keeps the
  analyses of the stored documents and at most appends a document that has none.
\<close>

theorem upload_writes_only_resumeFile:
  "students_collection (snd (upload_student_resume f timestamp now st student_id resume)) =
     (case (fst (upload_student_resume f timestamp now st student_id resume),
            ObjectId student_id) of
        (Inr resp, Inr i) \<Rightarrow>
          update_one (by_id i)
            (\<lambda>d. d\<lparr>resumeFile := Some (new_resume_data student_id timestamp now resume)\<rparr>)
            (students_collection st)
      | _ \<Rightarrow> students_collection st)
   \<and> (case ObjectId student_id of
        Inr i \<Rightarrow>
          filter (\<lambda>d. \<not> by_id i d)
            (students_collection (snd (upload_student_resume f timestamp now st student_id resume)))
          = filter (\<lambda>d. \<not> by_id i d) (students_collection st)
      | Inl e \<Rightarrow>
          students_collection (snd (upload_student_resume f timestamp now st student_id resume))
          = students_collection st)
   \<and> map (\<lambda>d. d\<lparr>resumeFile := None\<rparr>)
       (students_collection (snd (upload_student_resume f timestamp now st student_id resume)))
     = map (\<lambda>d. d\<lparr>resumeFile := None\<rparr>) (students_collection st)
   \<and> map resumeAnalysis
       (students_collection (snd (upload_student_resume f timestamp now st student_id resume)))
     = map resumeAnalysis (students_collection st)
   \<and> snd (get_student_resume st student_id) = st
   \<and> snd (download_student_resume st student_id) = st
   \<and> snd (get_students st) = st
   \<and> snd (get_student st student_id) = st
   \<and> map resumeAnalysis (students_collection (snd (create_student new_id t1 t2 st profile)))
       \<in> {map resumeAnalysis (students_collection st),
          map resumeAnalysis (students_collection st) @ [None]}"
proof -
  let ?out = "upload_student_resume f timestamp now st student_id resume"
  let ?u = "\<lambda>d. d\<lparr>resumeFile := Some (new_resume_data student_id timestamp now resume)\<rparr>"
  note x = upload_coll_exact [of f timestamp now st student_id resume]
  have o: "case ObjectId student_id of
        Inr i \<Rightarrow>
          filter (\<lambda>d. \<not> by_id i d) (students_collection (snd ?out))
          = filter (\<lambda>d. \<not> by_id i d) (students_collection st)
      | Inl e \<Rightarrow> students_collection (snd ?out) = students_collection st"
  proof (cases "ObjectId student_id")
    case (Inl e)
    with x show ?thesis by (simp split: sum.splits)
  next
    case (Inr i)
    have "filter (\<lambda>d. \<not> by_id i d) (update_one (by_id i) ?u (students_collection st))
            = filter (\<lambda>d. \<not> by_id i d) (students_collection st)"
      by (rule filter_update_one) (simp add: by_id_def)
    with x Inr show ?thesis by (simp split: sum.splits)
  qed
  have a: "map (\<lambda>d. d\<lparr>resumeFile := None\<rparr>) (students_collection (snd ?out))
             = map (\<lambda>d. d\<lparr>resumeFile := None\<rparr>) (students_collection st)"
    using x by (simp add: map_update_one_frame split: sum.splits)
  have b: "map resumeAnalysis (students_collection (snd ?out))
             = map resumeAnalysis (students_collection st)"
    using x by (simp add: map_update_one_frame split: sum.splits)
  have c: "map resumeAnalysis (students_collection (snd (create_student new_id t1 t2 st profile)))
       \<in> {map resumeAnalysis (students_collection st),
          map resumeAnalysis (students_collection st) @ [None]}"
    by (auto simp: create_student_def create_student_try_def insert_one_def Let_def
          StudentCreate.defs student.defs split: option.splits)
  have r: "snd (get_student_resume st student_id) = st"
    "snd (download_student_resume st student_id) = st"
    "snd (get_students st) = st"
    "snd (get_student st student_id) = st"
    by (simp_all add: get_student_resume_def download_student_resume_def get_students_def
          get_student_def)
  from x o a b c r show ?thesis
    by (intro conjI)
qed

theorem upload_writes_only_resumeFile_witness:
  "students_collection two_student_state
     = [other_student,
        example_student\<lparr>resumeFile := Some old_resume,
                        resumeAnalysis := Some (mock_analysis ''2023-12-31T08:00:00'')\<rparr>]
   \<and> response_status (fst (upload_student_resume no_faults ''20240101120000''
         ''2024-01-01T12:00:00'' two_student_state example_id example_pdf)) = 200
   \<and> students_collection (snd (upload_student_resume no_faults ''20240101120000''
         ''2024-01-01T12:00:00'' two_student_state example_id example_pdf))
     = [other_student,
        example_student\<lparr>resumeFile := Some (new_resume_data example_id ''20240101120000''
                                           ''2024-01-01T12:00:00'' example_pdf),
                        resumeAnalysis := Some (mock_analysis ''2023-12-31T08:00:00'')\<rparr>]"
proof -
  let ?out = "upload_student_resume no_faults ''20240101120000''
         ''2024-01-01T12:00:00'' two_student_state example_id example_pdf"
  have s: "fst ?out =
             Inr \<lparr>upload_message = ''Resume uploaded successfully'',
                   upload_resume =
                     \<lparr>info_id = ''507f1f77bcf86cd799439011'', info_fileName = ''test_resume.pdf'',
                      fileUrl = ''/api/students/507f1f77bcf86cd799439011/resume/download'',
                      info_uploadedAt = ''2024-01-01T12:00:00'', info_fileSize = 9,
                      info_analysis = None\<rparr>\<rparr>"
    by (simp add: upload_student_resume_def upload_student_resume_try_def two_student_state_def
          example_pdf_def endswith_def MAX_FILE_SIZE_def no_faults_def find_one_def by_id_def
          example_student_def other_student_def Let_def example_oid_def other_oid_def
          str_oid_def hexdigit_def download_url_def example_id_def
          ObjectId_literal [unfolded example_oid_def])
  have t: "students_collection two_student_state
     = [other_student,
        example_student\<lparr>resumeFile := Some old_resume,
                        resumeAnalysis := Some (mock_analysis ''2023-12-31T08:00:00'')\<rparr>]"
    by (simp add: two_student_state_def)
  have d: "\<not> by_id example_oid other_student"
    "by_id example_oid (example_student\<lparr>resumeFile := Some old_resume,
                        resumeAnalysis := Some (mock_analysis ''2023-12-31T08:00:00'')\<rparr>)"
    by (simp_all add: by_id_def other_student_def example_student_def example_oid_def
          other_oid_def)
  show ?thesis
    using upload_writes_only_resumeFile [of no_faults "''20240101120000''"
            "''2024-01-01T12:00:00''" two_student_state example_id example_pdf] s t d
    by simp
qed

subsection \<open>C10: the analysis is a constant\<close>

text \<open>
  C10. For any two students with a resume present, in any two states and at any two times,
  \<^verbatim>\<open>analyze_student_resume\<close> succeeds for both; the analyses it returns are equal once
  their \<open>lastAnalyzed\<close> is set to the same value, so they depend neither on the resume
  bytes, nor on the profile, nor on a prior analysis; each is the analysis stored in the
  student's document afterwards; and its \<open>overallScore\<close> is 8.5, which lies in [0, 10].
\<close>

theorem analyze_is_static:
  assumes "lookup_student st student_id = Some s" and "resumeFile s = Some rf"
    and "lookup_student st2 student_id2 = Some s2" and "resumeFile s2 = Some rf2"
  shows "\<exists>a a2 st' st2'.
           analyze_student_resume now st student_id =
             (Inr \<lparr>analyze_message = ''Resume analyzed successfully'',
                   analyze_analysis = a\<rparr>, st')
         \<and> analyze_student_resume now2 st2 student_id2 =
             (Inr \<lparr>analyze_message = ''Resume analyzed successfully'',
                   analyze_analysis = a2\<rparr>, st2')
         \<and> a\<lparr>lastAnalyzed := t\<rparr> = a2\<lparr>lastAnalyzed := t\<rparr>
         \<and> map_option resumeAnalysis (lookup_student st' student_id) = Some (Some a)
         \<and> map_option resumeAnalysis (lookup_student st2' student_id2) = Some (Some a2)
         \<and> overallScore a = 8.5 \<and> overallScore a2 = 8.5
         \<and> 0 \<le> overallScore a \<and> overallScore a \<le> 10"
proof -
  from analyze_present [OF assms(1,2), of now] obtain i where
    r: "analyze_student_resume now st student_id =
               (Inr \<lparr>analyze_message = ''Resume analyzed successfully'',
                     analyze_analysis = mock_analysis now\<rparr>,
                st\<lparr>students_collection :=
                     update_one (by_id i)
                       (\<lambda>d. d\<lparr>resumeAnalysis := Some (mock_analysis now)\<rparr>)
                       (students_collection st)\<rparr>)" and
    p: "lookup_student
                 (st\<lparr>students_collection :=
                     update_one (by_id i)
                       (\<lambda>d. d\<lparr>resumeAnalysis := Some (mock_analysis now)\<rparr>)
                       (students_collection st)\<rparr>) student_id
               = Some (s\<lparr>resumeAnalysis := Some (mock_analysis now)\<rparr>)"
    by blast
  from analyze_present [OF assms(3,4), of now2] obtain i2 where
    r2: "analyze_student_resume now2 st2 student_id2 =
               (Inr \<lparr>analyze_message = ''Resume analyzed successfully'',
                     analyze_analysis = mock_analysis now2\<rparr>,
                st2\<lparr>students_collection :=
                     update_one (by_id i2)
                       (\<lambda>d. d\<lparr>resumeAnalysis := Some (mock_analysis now2)\<rparr>)
                       (students_collection st2)\<rparr>)" and
    p2: "lookup_student
                 (st2\<lparr>students_collection :=
                     update_one (by_id i2)
                       (\<lambda>d. d\<lparr>resumeAnalysis := Some (mock_analysis now2)\<rparr>)
                       (students_collection st2)\<rparr>) student_id2
               = Some (s2\<lparr>resumeAnalysis := Some (mock_analysis now2)\<rparr>)"
    by blast
  have e: "(mock_analysis now)\<lparr>lastAnalyzed := t\<rparr> = (mock_analysis now2)\<lparr>lastAnalyzed := t\<rparr>"
    by (simp add: mock_analysis_def)
  have v: "overallScore (mock_analysis now) = 8.5" "overallScore (mock_analysis now2) = 8.5"
    by (simp_all add: mock_analysis_def)
  have b: "0 \<le> overallScore (mock_analysis now)" "overallScore (mock_analysis now) \<le> 10"
    by (simp_all add: mock_analysis_def)
  from r r2 e v b p p2 show ?thesis
    by (intro exI [of _ "mock_analysis now"] exI [of _ "mock_analysis now2"] exI conjI)
       (assumption | simp)+
qed

theorem analyze_is_static_witness:
  "lookup_student analyzed_state example_id
     = Some (example_student\<lparr>resumeFile := Some old_resume,
               resumeAnalysis := Some (mock_analysis ''2023-12-31T08:00:00'')\<rparr>)
   \<and> lookup_student uploaded_state example_id
     = Some (example_student\<lparr>resumeFile := Some
           \<lparr>originalName = ''test_resume.pdf'',
            fileName = ''resume-507f1f77bcf86cd799439011-20240101120000-test_resume.pdf'',
            filePath = ''uploads/resumes/resume-507f1f77bcf86cd799439011-20240101120000-test_resume.pdf'',
            fileSize = 9,
            uploadedAt = ''2024-01-01T12:00:00''\<rparr>\<rparr>)
   \<and> (\<exists>a a2 st' st2'.
           analyze_student_resume ''2024-01-02T08:00:00'' analyzed_state example_id =
             (Inr \<lparr>analyze_message = ''Resume analyzed successfully'',
                   analyze_analysis = a\<rparr>, st')
         \<and> analyze_student_resume ''2024-01-03T09:30:00'' uploaded_state example_id =
             (Inr \<lparr>analyze_message = ''Resume analyzed successfully'',
                   analyze_analysis = a2\<rparr>, st2')
         \<and> a\<lparr>lastAnalyzed := []\<rparr> = a2\<lparr>lastAnalyzed := []\<rparr>
         \<and> map_option resumeAnalysis (lookup_student st' example_id) = Some (Some a)
         \<and> map_option resumeAnalysis (lookup_student st2' example_id) = Some (Some a2)
         \<and> overallScore a = 8.5 \<and> overallScore a2 = 8.5
         \<and> 0 \<le> overallScore a \<and> overallScore a \<le> 10)"
proof -
  have u: "lookup_student uploaded_state example_id
     = Some (example_student\<lparr>resumeFile := Some
           \<lparr>originalName = ''test_resume.pdf'',
            fileName = ''resume-507f1f77bcf86cd799439011-20240101120000-test_resume.pdf'',
            filePath = ''uploads/resumes/resume-507f1f77bcf86cd799439011-20240101120000-test_resume.pdf'',
            fileSize = 9,
            uploadedAt = ''2024-01-01T12:00:00''\<rparr>\<rparr>)"
    by (simp add: lookup_student_def uploaded_state_def find_one_def by_id_def
          example_student_def)
  have "resumeFile (example_student\<lparr>resumeFile := Some old_resume,
               resumeAnalysis := Some (mock_analysis ''2023-12-31T08:00:00'')\<rparr>)
          = Some old_resume"
    by simp
  from analyze_is_static [OF lookup_analyzed this u, of _ "''2024-01-02T08:00:00''"
         "''2024-01-03T09:30:00''" "[]"]
  show ?thesis
    using lookup_analyzed u by simp
qed

end
